theory Spec2Isabelle
  imports Main "HOL-Library.Char_ord" "HOL-Library.List_Lexorder" "HOL-Library.AList"
begin

section \<open>The connections service of trustlink: data model\<close>

text \<open>
  The development embeds \<^verbatim>\<open>connections-service/cmd/connections-service/main.go\<close>
  together with the helpers it calls (\<^verbatim>\<open>common/httpx\<close>, \<^verbatim>\<open>common/rabbitmq\<close>).
  Go strings are byte sequences and compare bytewise; \<^typ>\<open>string\<close> with the
  lexicographic order on lists over the character order is the same order.
  A \<^verbatim>\<open>time.Time\<close> is a clock reading, a natural number here, the zero time being \<open>0\<close>.
\<close>

type_synonym time = nat

type_synonym RelationshipStatus = string

definition StatusRequested :: RelationshipStatus where
  "StatusRequested = ''requested''"

definition StatusAccepted :: RelationshipStatus where
  "StatusAccepted = ''accepted''"

definition StatusRejected :: RelationshipStatus where
  "StatusRejected = ''rejected''"

record Relationship =
  ID :: string
  FromUID :: string
  ToUID :: string
  Status :: RelationshipStatus
  CreatedAt :: time
  UpdatedAt :: time

text \<open>
  The request bodies and the event have fields that Go names \<^verbatim>\<open>FromUID\<close>, \<^verbatim>\<open>ToUID\<close>
  and \<^verbatim>\<open>CreatedAt\<close> again; record fields are global names, so they carry a prefix here.
\<close>

record ConnectionRequestRequest =
  TargetUID :: string

record ConnectionActionRequest =
  ActionFromUID :: string

record ConnectionEvent =
  EventFromUID :: string
  EventToUID :: string
  EventCreatedAt :: time

section \<open>The collaborators: document store, event bus, log\<close>

text \<open>
  A Firestore document is a finite map from field names to values; the service only ever
  writes strings and timestamps. The collection \<^verbatim>\<open>relationships\<close> is a finite map
  from document ids to documents, kept as an association list so that a query can enumerate
  it. The bus keeps every message handed to \<^verbatim>\<open>PublishWithContext\<close> together with
  whether the broker took it. The log keeps level and message of every entry.
\<close>

datatype fvalue = FString string | FTime time

type_synonym document = "(string \<times> fvalue) list"

type_synonym collection = "(string \<times> document) list"

datatype store_error = ErrNotFound | ErrUnavailable

datatype level = LDebug | LInfo | LWarn | LError

record publishing =
  routingKey :: string
  message :: ConnectionEvent
  delivered :: bool

record world =
  relationships :: collection
  bus :: "publishing list"
  logs :: "(level \<times> string) list"

text \<open>
  What the collaborators do during one request is not decided by the service: a call to
  the store or to the broker may fail (network, quota, closed channel). The record below
  holds these outcomes for one request. An iterator may fail at any call of
  \<^verbatim>\<open>Next\<close>: \<open>Some n\<close> says that it fails after having yielded \<open>n\<close> documents
  (or all of them, when there are fewer).
\<close>

record env =
  set_fails :: bool
  update_fails :: bool
  get_fails :: bool
  publish_fails :: bool
  iter1_fails :: "nat option"
  iter2_fails :: "nat option"

definition no_faults :: env where
  "no_faults = \<lparr>set_fails = False, update_fails = False, get_fails = False,
     publish_fails = False, iter1_fails = None, iter2_fails = None\<rparr>"

definition log_entry :: "level \<Rightarrow> string \<Rightarrow> world \<Rightarrow> world" where
  "log_entry l m w = w\<lparr>logs := logs w @ [(l, m)]\<rparr>"

subsection \<open>Firestore\<close>

text \<open>
  \<^verbatim>\<open>Doc(id).Set(ctx, v)\<close> replaces the whole document, creating it when absent.
  \<^verbatim>\<open>Doc(id).Update(ctx, updates)\<close> sets the listed field paths of an existing
  document and fails with NotFound when the document is absent.
  \<^verbatim>\<open>Doc(id).Get(ctx)\<close> fails with NotFound when the document is absent.
  A failed call leaves the collection as it was.
\<close>

definition doc_Set :: "env \<Rightarrow> string \<Rightarrow> document \<Rightarrow> world \<Rightarrow> store_error option \<times> world" where
  "doc_Set e k d w =
     (if set_fails e then (Some ErrUnavailable, w)
      else (None, w\<lparr>relationships := AList.update k d (relationships w)\<rparr>))"

definition apply_updates :: "(string \<times> fvalue) list \<Rightarrow> document \<Rightarrow> document" where
  "apply_updates ups d = fold (\<lambda>(p, v). AList.update p v) ups d"

definition doc_Update ::
  "env \<Rightarrow> string \<Rightarrow> (string \<times> fvalue) list \<Rightarrow> world \<Rightarrow> store_error option \<times> world" where
  "doc_Update e k ups w =
     (if update_fails e then (Some ErrUnavailable, w)
      else (case map_of (relationships w) k of
              None \<Rightarrow> (Some ErrNotFound, w)
            | Some d \<Rightarrow>
                (None, w\<lparr>relationships := AList.update k (apply_updates ups d) (relationships w)\<rparr>)))"

definition doc_Get :: "env \<Rightarrow> string \<Rightarrow> world \<Rightarrow> store_error + document" where
  "doc_Get e k w =
     (if get_fails e then Inl ErrUnavailable
      else (case map_of (relationships w) k of
              None \<Rightarrow> Inl ErrNotFound
            | Some d \<Rightarrow> Inr d))"

text \<open>
  \<^verbatim>\<open>Where(f1, "==", v1).Where(f2, "==", v2).Documents(ctx)\<close>: the documents whose
  two fields hold exactly these strings. The iterator is the list of the documents it
  yields and whether it ends in an error instead of \<^verbatim>\<open>iterator.Done\<close>.
\<close>

definition field_is :: "document \<Rightarrow> string \<Rightarrow> string \<Rightarrow> bool" where
  "field_is d f v = (map_of d f = Some (FString v))"

definition Documents ::
  "nat option \<Rightarrow> string \<Rightarrow> string \<Rightarrow> string \<Rightarrow> string \<Rightarrow> world \<Rightarrow> (string \<times> document) list \<times> bool" where
  "Documents fails f1 v1 f2 v2 w =
     (let hits = filter (\<lambda>(k, d). field_is d f1 v1 \<and> field_is d f2 v2) (relationships w)
      in case fails of None \<Rightarrow> (hits, False) | Some n \<Rightarrow> (take n hits, True))"

text \<open>
  Writing a \<^verbatim>\<open>Relationship\<close> struct: every field with a \<^verbatim>\<open>firestore\<close> tag,
  so not \<^verbatim>\<open>ID\<close> (tag \<^verbatim>\<open>"-"\<close>). Reading one (\<^verbatim>\<open>DataTo\<close>) into a zero
  struct: an absent field keeps the zero value, a field of the wrong type is an error,
  fields the struct does not have are ignored.
\<close>

definition toDoc :: "Relationship \<Rightarrow> document" where
  "toDoc r = [(''fromUid'', FString (FromUID r)), (''toUid'', FString (ToUID r)),
              (''status'', FString (Status r)), (''createdAt'', FTime (CreatedAt r)),
              (''updatedAt'', FTime (UpdatedAt r))]"

definition string_field :: "document \<Rightarrow> string \<Rightarrow> string option" where
  "string_field d f =
     (case map_of d f of None \<Rightarrow> Some [] | Some (FString s) \<Rightarrow> Some s | Some (FTime t) \<Rightarrow> None)"

definition time_field :: "document \<Rightarrow> string \<Rightarrow> time option" where
  "time_field d f =
     (case map_of d f of None \<Rightarrow> Some 0 | Some (FTime t) \<Rightarrow> Some t | Some (FString s) \<Rightarrow> None)"

definition DataTo :: "document \<Rightarrow> Relationship option" where
  "DataTo d =
     (case (string_field d ''fromUid'', string_field d ''toUid'', string_field d ''status'',
            time_field d ''createdAt'', time_field d ''updatedAt'') of
        (Some f, Some t, Some s, Some c, Some u) \<Rightarrow>
          Some \<lparr>ID = [], FromUID = f, ToUID = t, Status = s, CreatedAt = c, UpdatedAt = u\<rparr>
      | _ \<Rightarrow> None)"

subsection \<open>RabbitMQ\<close>

text \<open>
  \<^verbatim>\<open>Connection.Publish\<close> of \<^verbatim>\<open>common/rabbitmq/client.go\<close>: the payload is
  marshalled (which cannot fail for two strings and a timestamp), handed to the channel,
  and the channel's error, if any, is returned; a debug line is logged on success.
\<close>

definition Publish :: "env \<Rightarrow> string \<Rightarrow> ConnectionEvent \<Rightarrow> world \<Rightarrow> bool \<times> world" where
  "Publish e key ev w =
     (let w1 = w\<lparr>bus := bus w @ [\<lparr>routingKey = key, message = ev, delivered = \<not> publish_fails e\<rparr>]\<rparr>
      in if publish_fails e then (True, w1)
         else (False, log_entry LDebug ''Published message'' w1))"

subsection \<open>httpx\<close>

datatype body =
    ErrorResponse string string
  | RelationshipBody Relationship
  | ConnectionsBody "Relationship list option" nat

record response =
  status_code :: nat
  payload :: body

definition WriteJSON :: "nat \<Rightarrow> body \<Rightarrow> response" where
  "WriteJSON st data = \<lparr>status_code = st, payload = data\<rparr>"

definition WriteError :: "nat \<Rightarrow> string \<Rightarrow> string \<Rightarrow> response" where
  "WriteError st c m = WriteJSON st (ErrorResponse c m)"

definition Unauthorized :: "string \<Rightarrow> response" where
  "Unauthorized m = WriteError 401 ''unauthorized'' m"

definition BadRequest :: "string \<Rightarrow> response" where
  "BadRequest m = WriteError 400 ''bad_request'' m"

definition InternalServerError :: "string \<Rightarrow> response" where
  "InternalServerError m = WriteError 500 ''internal_server_error'' m"

definition NotFound :: "string \<Rightarrow> response" where
  "NotFound m = WriteError 404 ''not_found'' m"

definition Success :: "body \<Rightarrow> response" where
  "Success data = WriteJSON 200 data"

definition Created :: "body \<Rightarrow> response" where
  "Created data = WriteJSON 201 data"

section \<open>The handlers\<close>

text \<open>\<^verbatim>\<open>sort.Strings\<close> on a slice, and the identifier built from the sorted pair.\<close>

definition sort_Strings :: "string list \<Rightarrow> string list" where
  "sort_Strings xs = sort xs"

definition createRelationshipID :: "string \<Rightarrow> string \<Rightarrow> string" where
  "createRelationshipID uid1 uid2 =
     (let uids = sort_Strings [uid1, uid2]
      in uids ! 0 @ ''_'' @ uids ! 1)"

text \<open>
  A handler takes the outcomes of the collaborators, the reading of \<^verbatim>\<open>time.Now()\<close>
  (each handler reads the clock at most once), the user id found in the request context
  (\<open>None\<close> when there is none), the decoded JSON body (\<open>None\<close> when decoding fails) and
  the world; it returns the response written and the world afterwards.
\<close>

definition requestConnection ::
  "env \<Rightarrow> time \<Rightarrow> string option \<Rightarrow> ConnectionRequestRequest option \<Rightarrow> world \<Rightarrow> response \<times> world" where
  "requestConnection e now ctx_uid decoded w =
     (case ctx_uid of
        None \<Rightarrow> (Unauthorized ''User ID not found in context'', w)
      | Some uid \<Rightarrow>
     (case decoded of
        None \<Rightarrow> (BadRequest ''Invalid request body'', w)
      | Some req \<Rightarrow>
        if TargetUID req = [] then (BadRequest ''targetUid is required'', w)
        else if TargetUID req = uid then (BadRequest ''Cannot connect with yourself'', w)
        else
          let relationshipID = createRelationshipID uid (TargetUID req);
              relationship = \<lparr>ID = relationshipID, FromUID = uid, ToUID = TargetUID req,
                Status = StatusRequested, CreatedAt = now, UpdatedAt = now\<rparr>
          in (case doc_Set e relationshipID (toDoc relationship) w of
                (Some err, w1) \<Rightarrow>
                  (InternalServerError ''Failed to create connection request'',
                   log_entry LError ''Failed to create connection request'' w1)
              | (None, w1) \<Rightarrow>
                  (let w2 = log_entry LInfo ''Connection requested'' w1;
                       event = \<lparr>EventFromUID = uid, EventToUID = TargetUID req, EventCreatedAt = now\<rparr>;
                       w3 = (case Publish e ''connection.requested'' event w2 of
                               (True, w') \<Rightarrow>
                                 log_entry LError ''Failed to publish connection.requested event'' w'
                             | (False, w') \<Rightarrow> w')
                   in (Created (RelationshipBody relationship), w3)))))"

text \<open>The tail shared, line for line, by accept and reject: fetch the document and return it.\<close>

definition fetch_updated :: "env \<Rightarrow> string \<Rightarrow> world \<Rightarrow> response \<times> world" where
  "fetch_updated e relationshipID w =
     (case doc_Get e relationshipID w of
        Inl err \<Rightarrow>
          (InternalServerError ''Failed to get updated relationship'',
           log_entry LError ''Failed to get updated relationship'' w)
      | Inr doc \<Rightarrow>
          (case DataTo doc of
             None \<Rightarrow>
               (InternalServerError ''Failed to parse relationship'',
                log_entry LError ''Failed to parse relationship'' w)
           | Some relationship \<Rightarrow>
               (Success (RelationshipBody (relationship\<lparr>ID := relationshipID\<rparr>)), w)))"

definition acceptConnection ::
  "env \<Rightarrow> time \<Rightarrow> string option \<Rightarrow> ConnectionActionRequest option \<Rightarrow> world \<Rightarrow> response \<times> world" where
  "acceptConnection e now ctx_uid decoded w =
     (case ctx_uid of
        None \<Rightarrow> (Unauthorized ''User ID not found in context'', w)
      | Some uid \<Rightarrow>
     (case decoded of
        None \<Rightarrow> (BadRequest ''Invalid request body'', w)
      | Some req \<Rightarrow>
        if ActionFromUID req = [] then (BadRequest ''fromUid is required'', w)
        else
          let relationshipID = createRelationshipID (ActionFromUID req) uid
          in (case doc_Update e relationshipID
                     [(''status'', FString StatusAccepted), (''updatedAt'', FTime now)] w of
                (Some err, w1) \<Rightarrow>
                  (InternalServerError ''Failed to accept connection'',
                   log_entry LError ''Failed to accept connection'' w1)
              | (None, w1) \<Rightarrow>
                  (let w2 = log_entry LInfo ''Connection accepted'' w1;
                       event = \<lparr>EventFromUID = ActionFromUID req, EventToUID = uid, EventCreatedAt = now\<rparr>;
                       w3 = (case Publish e ''connection.accepted'' event w2 of
                               (True, w') \<Rightarrow>
                                 log_entry LError ''Failed to publish connection.accepted event'' w'
                             | (False, w') \<Rightarrow> w')
                   in fetch_updated e relationshipID w3))))"

definition rejectConnection ::
  "env \<Rightarrow> time \<Rightarrow> string option \<Rightarrow> ConnectionActionRequest option \<Rightarrow> world \<Rightarrow> response \<times> world" where
  "rejectConnection e now ctx_uid decoded w =
     (case ctx_uid of
        None \<Rightarrow> (Unauthorized ''User ID not found in context'', w)
      | Some uid \<Rightarrow>
     (case decoded of
        None \<Rightarrow> (BadRequest ''Invalid request body'', w)
      | Some req \<Rightarrow>
        if ActionFromUID req = [] then (BadRequest ''fromUid is required'', w)
        else
          let relationshipID = createRelationshipID (ActionFromUID req) uid
          in (case doc_Update e relationshipID
                     [(''status'', FString StatusRejected), (''updatedAt'', FTime now)] w of
                (Some err, w1) \<Rightarrow>
                  (InternalServerError ''Failed to reject connection'',
                   log_entry LError ''Failed to reject connection'' w1)
              | (None, w1) \<Rightarrow>
                  fetch_updated e relationshipID (log_entry LInfo ''Connection rejected'' w1))))"

text \<open>
  The two loops of \<^verbatim>\<open>getConnections\<close>. A Go slice is \<^verbatim>\<open>nil\<close> until the first
  \<^verbatim>\<open>append\<close>: \<open>None\<close> is the nil slice. A document that does not parse is logged
  and skipped.
\<close>

definition append_rel :: "Relationship list option \<Rightarrow> Relationship \<Rightarrow> Relationship list option" where
  "append_rel rs r = (case rs of None \<Rightarrow> Some [r] | Some xs \<Rightarrow> Some (xs @ [r]))"

fun drain ::
  "(string \<times> document) list \<Rightarrow> Relationship list option \<Rightarrow> world \<Rightarrow> Relationship list option \<times> world" where
  "drain [] rs w = (rs, w)"
| "drain ((k, d) # rest) rs w =
     (case DataTo d of
        None \<Rightarrow> drain rest rs (log_entry LError ''Failed to parse relationship'' w)
      | Some rel \<Rightarrow> drain rest (append_rel rs (rel\<lparr>ID := k\<rparr>)) w)"

definition slice_len :: "Relationship list option \<Rightarrow> nat" where
  "slice_len rs = (case rs of None \<Rightarrow> 0 | Some xs \<Rightarrow> length xs)"

definition getConnections :: "env \<Rightarrow> string option \<Rightarrow> string \<Rightarrow> world \<Rightarrow> response \<times> world" where
  "getConnections e ctx_uid status_param w =
     (case ctx_uid of
        None \<Rightarrow> (Unauthorized ''User ID not found in context'', w)
      | Some uid \<Rightarrow>
        let status = (if status_param = [] then StatusAccepted else status_param);
            (docs1, failed1) = Documents (iter1_fails e) ''fromUid'' uid ''status'' status w;
            (rs1, w1) = drain docs1 None w
        in if failed1 then
             (InternalServerError ''Failed to fetch connections'',
              log_entry LError ''Failed to iterate relationships'' w1)
           else
             let (docs2, failed2) = Documents (iter2_fails e) ''toUid'' uid ''status'' status w1;
                 (rs2, w2) = drain docs2 rs1 w1
             in if failed2 then
                  (InternalServerError ''Failed to fetch connections'',
                   log_entry LError ''Failed to iterate relationships'' w2)
                else
                  let relationships = (if rs2 = None then Some [] else rs2)
                  in (Success (ConnectionsBody relationships (slice_len relationships)), w2))"

text \<open>
  Two functions used to state what \<^verbatim>\<open>getConnections\<close> returns: the documents a
  query matches, and the relationships read from a list of documents, each with the id of
  its document, unreadable documents left out.
\<close>

definition parse_all :: "(string \<times> document) list \<Rightarrow> Relationship list" where
  "parse_all docs =
     concat (map (\<lambda>(k, d). case DataTo d of None \<Rightarrow> [] | Some r \<Rightarrow> [r\<lparr>ID := k\<rparr>]) docs)"

definition matching :: "string \<Rightarrow> string \<Rightarrow> string \<Rightarrow> collection \<Rightarrow> (string \<times> document) list" where
  "matching field uid status docs =
     filter (\<lambda>(k, d). field_is d field uid \<and> field_is d ''status'' status) docs"

text \<open>A collection with three relationships, to run the handlers on.\<close>

definition sample_world :: world where
  "sample_world =
     \<lparr>relationships =
        [(''alice_bob'', toDoc \<lparr>ID = [], FromUID = ''alice'', ToUID = ''bob'',
             Status = StatusRequested, CreatedAt = 1, UpdatedAt = 1\<rparr>),
         (''bob_carol'', toDoc \<lparr>ID = [], FromUID = ''bob'', ToUID = ''carol'',
             Status = StatusAccepted, CreatedAt = 2, UpdatedAt = 3\<rparr>),
         (''alice_carol'', toDoc \<lparr>ID = [], FromUID = ''carol'', ToUID = ''alice'',
             Status = StatusAccepted, CreatedAt = 4, UpdatedAt = 5\<rparr>)],
      bus = [], logs = []\<rparr>"

section \<open>The relationship identifier\<close>

lemma createRelationshipID_le:
  "a \<le> b \<Longrightarrow> createRelationshipID a b = a @ ''_'' @ b"
  by (simp add: createRelationshipID_def sort_Strings_def)

lemma createRelationshipID_ge:
  "b \<le> a \<Longrightarrow> createRelationshipID a b = b @ ''_'' @ a"
  by (auto simp: createRelationshipID_def sort_Strings_def)


lemma createRelationshipID_sorted:
  "createRelationshipID a b = min a b @ ''_'' @ max a b"
  by (cases "a \<le> b") (simp_all add: createRelationshipID_le createRelationshipID_ge min_def max_def)

lemma split_at_first:
  "x \<notin> set xs \<Longrightarrow> x \<notin> set xs' \<Longrightarrow> xs @ x # ys = xs' @ x # ys' \<Longrightarrow> xs = xs' \<and> ys = ys'"
proof (induction xs arbitrary: xs')
  case Nil
  then show ?case by (cases xs') auto
next
  case (Cons z zs)
  then show ?case by (cases xs') auto
qed


section \<open>Evaluating the handlers on valid requests\<close>



lemma requestConnection_relationships:
  assumes "t \<noteq> []" "t \<noteq> uid" "\<not> set_fails e"
  shows "relationships (snd (requestConnection e now (Some uid) (Some \<lparr>TargetUID = t\<rparr>) w)) =
         AList.update (createRelationshipID uid t)
           (toDoc \<lparr>ID = createRelationshipID uid t, FromUID = uid, ToUID = t,
               Status = StatusRequested, CreatedAt = now, UpdatedAt = now\<rparr>) (relationships w)"
  using assms
  by (simp add: requestConnection_def doc_Set_def Publish_def log_entry_def Let_def)

lemma requestConnection_response:
  assumes "t \<noteq> []" "t \<noteq> uid" "\<not> set_fails e"
  shows "fst (requestConnection e now (Some uid) (Some \<lparr>TargetUID = t\<rparr>) w) =
         \<lparr>status_code = 201, payload = RelationshipBody
            \<lparr>ID = createRelationshipID uid t, FromUID = uid, ToUID = t,
               Status = StatusRequested, CreatedAt = now, UpdatedAt = now\<rparr>\<rparr>"
  using assms
  by (simp add: requestConnection_def doc_Set_def Publish_def log_entry_def Let_def Created_def WriteJSON_def)

lemma requestConnection_bus:
  assumes "t \<noteq> []" "t \<noteq> uid" "\<not> set_fails e"
  shows "bus (snd (requestConnection e now (Some uid) (Some \<lparr>TargetUID = t\<rparr>) w)) =
         bus w @ [\<lparr>routingKey = ''connection.requested'',
                   message = \<lparr>EventFromUID = uid, EventToUID = t, EventCreatedAt = now\<rparr>,
                   delivered = \<not> publish_fails e\<rparr>]"
  using assms
  by (simp add: requestConnection_def doc_Set_def Publish_def log_entry_def Let_def)

lemma map_of_apply_updates2:
  "map_of (apply_updates [(p1, v1), (p2, v2)] d) = (map_of d)(p1 \<mapsto> v1, p2 \<mapsto> v2)"
  by (simp add: apply_updates_def update_conv')

lemma acceptConnection_update_error:
  assumes "f \<noteq> []" "update_fails e \<or> map_of (relationships w) (createRelationshipID f uid) = None"
  shows "acceptConnection e now (Some uid) (Some \<lparr>ActionFromUID = f\<rparr>) w =
         (InternalServerError ''Failed to accept connection'',
          log_entry LError ''Failed to accept connection'' w)"
  using assms by (auto simp: acceptConnection_def doc_Update_def Let_def)

lemma rejectConnection_update_error:
  assumes "f \<noteq> []" "update_fails e \<or> map_of (relationships w) (createRelationshipID f uid) = None"
  shows "rejectConnection e now (Some uid) (Some \<lparr>ActionFromUID = f\<rparr>) w =
         (InternalServerError ''Failed to reject connection'',
          log_entry LError ''Failed to reject connection'' w)"
  using assms by (auto simp: rejectConnection_def doc_Update_def Let_def)

lemma relationships_fetch_updated [simp]:
  "relationships (snd (fetch_updated e k w)) = relationships w"
  by (simp add: fetch_updated_def log_entry_def split: sum.splits option.splits)

lemma bus_fetch_updated [simp]:
  "bus (snd (fetch_updated e k w)) = bus w"
  by (simp add: fetch_updated_def log_entry_def split: sum.splits option.splits)

lemma acceptConnection_relationships:
  assumes "f \<noteq> []" "\<not> update_fails e" "map_of (relationships w) (createRelationshipID f uid) = Some d"
  shows "relationships (snd (acceptConnection e now (Some uid) (Some \<lparr>ActionFromUID = f\<rparr>) w)) =
         AList.update (createRelationshipID f uid)
           (apply_updates [(''status'', FString StatusAccepted), (''updatedAt'', FTime now)] d)
           (relationships w)"
  using assms
  by (simp add: acceptConnection_def doc_Update_def Publish_def log_entry_def Let_def)

lemma acceptConnection_bus:
  assumes "f \<noteq> []" "\<not> update_fails e" "map_of (relationships w) (createRelationshipID f uid) = Some d"
  shows "bus (snd (acceptConnection e now (Some uid) (Some \<lparr>ActionFromUID = f\<rparr>) w)) =
         bus w @ [\<lparr>routingKey = ''connection.accepted'',
                   message = \<lparr>EventFromUID = f, EventToUID = uid, EventCreatedAt = now\<rparr>,
                   delivered = \<not> publish_fails e\<rparr>]"
  using assms
  by (simp add: acceptConnection_def doc_Update_def Publish_def log_entry_def Let_def)

lemma rejectConnection_relationships:
  assumes "f \<noteq> []" "\<not> update_fails e" "map_of (relationships w) (createRelationshipID f uid) = Some d"
  shows "relationships (snd (rejectConnection e now (Some uid) (Some \<lparr>ActionFromUID = f\<rparr>) w)) =
         AList.update (createRelationshipID f uid)
           (apply_updates [(''status'', FString StatusRejected), (''updatedAt'', FTime now)] d)
           (relationships w)"
  using assms
  by (simp add: rejectConnection_def doc_Update_def log_entry_def Let_def)

lemma rejectConnection_bus:
  "bus (snd (rejectConnection e now c b w)) = bus w"
  by (simp add: rejectConnection_def doc_Update_def log_entry_def Let_def
        split: option.splits prod.splits)

lemma acceptConnection_response:
  assumes "f \<noteq> []" "\<not> update_fails e" "map_of (relationships w) (createRelationshipID f uid) = Some d"
  shows "fst (acceptConnection e now (Some uid) (Some \<lparr>ActionFromUID = f\<rparr>) w) =
         (if get_fails e then InternalServerError ''Failed to get updated relationship''
          else case DataTo (apply_updates [(''status'', FString StatusAccepted), (''updatedAt'', FTime now)] d) of
                 None \<Rightarrow> InternalServerError ''Failed to parse relationship''
               | Some r \<Rightarrow> Success (RelationshipBody (r\<lparr>ID := createRelationshipID f uid\<rparr>)))"
  using assms
  by (simp add: acceptConnection_def doc_Update_def Publish_def log_entry_def Let_def
        fetch_updated_def doc_Get_def update_conv' split: option.splits)

lemma rejectConnection_response:
  assumes "f \<noteq> []" "\<not> update_fails e" "map_of (relationships w) (createRelationshipID f uid) = Some d"
  shows "fst (rejectConnection e now (Some uid) (Some \<lparr>ActionFromUID = f\<rparr>) w) =
         (if get_fails e then InternalServerError ''Failed to get updated relationship''
          else case DataTo (apply_updates [(''status'', FString StatusRejected), (''updatedAt'', FTime now)] d) of
                 None \<Rightarrow> InternalServerError ''Failed to parse relationship''
               | Some r \<Rightarrow> Success (RelationshipBody (r\<lparr>ID := createRelationshipID f uid\<rparr>)))"
  using assms
  by (simp add: rejectConnection_def doc_Update_def log_entry_def Let_def
        fetch_updated_def doc_Get_def update_conv' split: option.splits)

lemma acceptConnection_relationships_other:
  "\<not> (\<exists>uid req. c = Some uid \<and> b = Some req \<and> ActionFromUID req \<noteq> [] \<and> \<not> update_fails e \<and>
        map_of (relationships w) (createRelationshipID (ActionFromUID req) uid) \<noteq> None) \<Longrightarrow>
   relationships (snd (acceptConnection e now c b w)) = relationships w"
  by (auto simp: acceptConnection_def doc_Update_def Let_def log_entry_def
        split: option.splits)

lemma rejectConnection_relationships_other:
  "\<not> (\<exists>uid req. c = Some uid \<and> b = Some req \<and> ActionFromUID req \<noteq> [] \<and> \<not> update_fails e \<and>
        map_of (relationships w) (createRelationshipID (ActionFromUID req) uid) \<noteq> None) \<Longrightarrow>
   relationships (snd (rejectConnection e now c b w)) = relationships w"
  by (auto simp: rejectConnection_def doc_Update_def Let_def log_entry_def
        split: option.splits)

lemma frame_after_update:
  assumes "map_of al k = Some d" and "map_of al k' = Some d0"
  shows "\<exists>d'. map_of (AList.update k' (apply_updates [(''status'', v1), (''updatedAt'', v2)] d0) al) k = Some d' \<and>
           (\<forall>f. f \<noteq> ''status'' \<and> f \<noteq> ''updatedAt'' \<longrightarrow> map_of d' f = map_of d f)"
  using assms by (cases "k = k'") (simp_all add: update_conv' map_of_apply_updates2)

lemma status_code_simps [simp]:
  "status_code (InternalServerError m) = 500"
  "status_code (BadRequest m) = 400"
  "status_code (Unauthorized m) = 401"
  "status_code (Success x) = 200"
  "status_code (Created x) = 201"
  by (simp_all add: InternalServerError_def BadRequest_def Unauthorized_def Success_def
        Created_def WriteError_def WriteJSON_def)

lemma payload_Success [simp]: "payload (Success x) = x"
  by (simp add: Success_def WriteJSON_def)

lemma acceptConnection_200:
  assumes "status_code (fst (acceptConnection e now (Some uid) (Some \<lparr>ActionFromUID = f\<rparr>) w)) = 200"
  shows "f \<noteq> [] \<and> \<not> update_fails e \<and> \<not> get_fails e \<and>
         (\<exists>d. map_of (relationships w) (createRelationshipID f uid) = Some d)"
proof -
  have "f \<noteq> []"
    using assms by (auto simp: acceptConnection_def)
  moreover have "\<not> (update_fails e \<or> map_of (relationships w) (createRelationshipID f uid) = None)"
  proof
    assume a: "update_fails e \<or> map_of (relationships w) (createRelationshipID f uid) = None"
    have "status_code (fst (acceptConnection e now (Some uid) (Some \<lparr>ActionFromUID = f\<rparr>) w)) = 500"
      by (simp add: acceptConnection_update_error [OF \<open>f \<noteq> []\<close> a])
    with assms show False by simp
  qed
  moreover from this obtain d where d: "map_of (relationships w) (createRelationshipID f uid) = Some d"
    by auto
  moreover have "\<not> get_fails e"
    using assms acceptConnection_response [OF \<open>f \<noteq> []\<close> _ d, of e now] calculation(2) by auto
  ultimately show ?thesis by blast
qed

lemma rejectConnection_200:
  assumes "status_code (fst (rejectConnection e now (Some uid) (Some \<lparr>ActionFromUID = f\<rparr>) w)) = 200"
  shows "f \<noteq> [] \<and> \<not> update_fails e \<and> \<not> get_fails e \<and>
         (\<exists>d. map_of (relationships w) (createRelationshipID f uid) = Some d)"
proof -
  have "f \<noteq> []"
    using assms by (auto simp: rejectConnection_def)
  moreover have "\<not> (update_fails e \<or> map_of (relationships w) (createRelationshipID f uid) = None)"
  proof
    assume a: "update_fails e \<or> map_of (relationships w) (createRelationshipID f uid) = None"
    have "status_code (fst (rejectConnection e now (Some uid) (Some \<lparr>ActionFromUID = f\<rparr>) w)) = 500"
      by (simp add: rejectConnection_update_error [OF \<open>f \<noteq> []\<close> a])
    with assms show False by simp
  qed
  moreover from this obtain d where d: "map_of (relationships w) (createRelationshipID f uid) = Some d"
    by auto
  moreover have "\<not> get_fails e"
    using assms rejectConnection_response [OF \<open>f \<noteq> []\<close> _ d, of e now] calculation(2) by auto
  ultimately show ?thesis by blast
qed

lemma DataTo_status:
  "DataTo d = Some r \<Longrightarrow> map_of d ''status'' = Some (FString s) \<Longrightarrow> Status r = s"
  by (auto simp: DataTo_def string_field_def split: option.splits fvalue.splits)

lemma requestConnection_logs_publish_failure:
  assumes "t \<noteq> []" "t \<noteq> uid" "\<not> set_fails e" "publish_fails e"
  shows "logs (snd (requestConnection e now (Some uid) (Some \<lparr>TargetUID = t\<rparr>) w)) =
         logs w @ [(LInfo, ''Connection requested''),
                   (LError, ''Failed to publish connection.requested event'')]"
  using assms
  by (simp add: requestConnection_def doc_Set_def Publish_def log_entry_def Let_def)

lemma logs_fetch_updated:
  "\<exists>ls. logs (snd (fetch_updated e k w)) = logs w @ ls"
  by (simp add: fetch_updated_def log_entry_def split: sum.splits option.splits)

lemma acceptConnection_logs_publish_failure:
  assumes "f \<noteq> []" "\<not> update_fails e" "map_of (relationships w) (createRelationshipID f uid) = Some d"
    "publish_fails e"
  shows "\<exists>ls. logs (snd (acceptConnection e now (Some uid) (Some \<lparr>ActionFromUID = f\<rparr>) w)) =
         logs w @ [(LInfo, ''Connection accepted''),
                   (LError, ''Failed to publish connection.accepted event'')] @ ls"
  using assms
    logs_fetch_updated [of e "createRelationshipID f uid"
      "w\<lparr>relationships := AList.update (createRelationshipID f uid)
            (apply_updates [(''status'', FString StatusAccepted), (''updatedAt'', FTime now)] d)
            (relationships w),
          logs := logs w @ [(LInfo, ''Connection accepted'')],
          bus := bus w @ [\<lparr>routingKey = ''connection.accepted'',
                   message = \<lparr>EventFromUID = f, EventToUID = uid, EventCreatedAt = now\<rparr>,
                   delivered = False\<rparr>],
          logs := logs w @ [(LInfo, ''Connection accepted''),
                   (LError, ''Failed to publish connection.accepted event'')]\<rparr>"]
  by (simp add: acceptConnection_def doc_Update_def Publish_def log_entry_def Let_def)

lemma drain_fst:
  "fst (drain docs rs w) =
     (if parse_all docs = [] then rs
      else Some ((case rs of None \<Rightarrow> [] | Some xs \<Rightarrow> xs) @ parse_all docs))"
proof (induction docs arbitrary: rs w)
  case Nil
  then show ?case by (simp add: parse_all_def)
next
  case (Cons p docs)
  obtain k d where p: "p = (k, d)" by (cases p)
  show ?case
  proof (cases "DataTo d")
    case None
    then show ?thesis using Cons.IH by (simp add: p parse_all_def)
  next
    case (Some r)
    then show ?thesis using Cons.IH [of "append_rel rs (r\<lparr>ID := k\<rparr>)" w]
      by (simp add: p parse_all_def append_rel_def split: option.splits)
  qed
qed

lemma drain_relationships: "relationships (snd (drain docs rs w)) = relationships w"
  by (induction docs rs w rule: drain.induct) (simp_all add: log_entry_def split: option.splits)

lemma drain_bus: "bus (snd (drain docs rs w)) = bus w"
  by (induction docs rs w rule: drain.induct) (simp_all add: log_entry_def split: option.splits)

lemma set_parse_all:
  "set (parse_all docs) = {r\<lparr>ID := k\<rparr> | k d r. (k, d) \<in> set docs \<and> DataTo d = Some r}"
  by (auto simp: parse_all_def split: option.splits) force

lemma getConnections_ok:
  assumes "iter1_fails e = None" and "iter2_fails e = None" and "s \<noteq> []"
  shows "fst (getConnections e (Some uid) s w) =
         Success (ConnectionsBody
           (Some (parse_all (matching ''fromUid'' uid s (relationships w)) @
                  parse_all (matching ''toUid'' uid s (relationships w))))
           (length (parse_all (matching ''fromUid'' uid s (relationships w)) @
                  parse_all (matching ''toUid'' uid s (relationships w)))))"
proof -
  let ?d1 = "matching ''fromUid'' uid s (relationships w)"
  let ?d2 = "matching ''toUid'' uid s (relationships w)"
  obtain rs1 w1 where d1: "drain ?d1 None w = (rs1, w1)" by (cases "drain ?d1 None w")
  have rs1: "rs1 = (if parse_all ?d1 = [] then None else Some (parse_all ?d1))"
    using drain_fst [of ?d1 None w] d1 by simp
  have w1: "relationships w1 = relationships w"
    using drain_relationships [of ?d1 None w] d1 by simp
  obtain rs2 w2 where d2: "drain ?d2 rs1 w1 = (rs2, w2)" by (cases "drain ?d2 rs1 w1")
  have rs2: "rs2 = (if parse_all ?d2 = [] then rs1
                    else Some ((case rs1 of None \<Rightarrow> [] | Some xs \<Rightarrow> xs) @ parse_all ?d2))"
    using drain_fst [of ?d2 rs1 w1] d2 by simp
  have "fst (getConnections e (Some uid) s w) =
        Success (ConnectionsBody (if rs2 = None then Some [] else rs2)
                   (slice_len (if rs2 = None then Some [] else rs2)))"
    using assms d1 d2 w1
    by (simp add: getConnections_def Documents_def matching_def Let_def)
  also have "(if rs2 = None then Some [] else rs2) = Some (parse_all ?d1 @ parse_all ?d2)"
    by (simp add: rs1 rs2)
  finally show ?thesis by (simp add: slice_len_def)
qed

section \<open>The claims\<close>




text \<open>
  C2, as the claim states it, fails: the separator may occur inside an identifier, and then
  two different pairs are joined to the same string. The pairs \<open>{x, y_z}\<close> and
  \<open>{x_y, z}\<close> both give \<open>x_y_z\<close>.
\<close>

theorem createRelationshipID_collision:
  "''x'' \<noteq> ''y_z'' \<and> ''x_y'' \<noteq> ''z'' \<and> {''x'', ''y_z''} \<noteq> {''x_y'', ''z''} \<and>
   createRelationshipID ''x'' ''y_z'' = createRelationshipID ''x_y'' ''z''"
  by (simp add: createRelationshipID_def sort_Strings_def doubleton_eq_iff)


text \<open>
  C2, amended. For identifiers that do not contain the separator \<open>_\<close>, two different
  unordered pairs have different relationship identifiers, hence different storage keys.
\<close>

theorem createRelationshipID_injective:
  assumes "CHR ''_'' \<notin> set a" and "CHR ''_'' \<notin> set b"
    and "CHR ''_'' \<notin> set c" and "CHR ''_'' \<notin> set d"
    and "{a, b} \<noteq> {c, d}"
  shows "createRelationshipID a b \<noteq> createRelationshipID c d"
proof
  assume eq: "createRelationshipID a b = createRelationshipID c d"
  have nab: "CHR ''_'' \<notin> set (min a b)" using assms by (simp add: min_def)
  have ncd: "CHR ''_'' \<notin> set (min c d)" using assms by (simp add: min_def)
  from eq have "min a b @ CHR ''_'' # max a b = min c d @ CHR ''_'' # max c d"
    by (simp add: createRelationshipID_sorted)
  then have "min a b = min c d \<and> max a b = max c d"
    using nab ncd by (rule split_at_first [rotated 2])
  moreover have "{a, b} = {min a b, max a b}" "{c, d} = {min c d, max c d}"
    by (auto simp: min_def max_def)
  ultimately have "{a, b} = {c, d}"
    by simp
  with assms show False by simp
qed

theorem createRelationshipID_injective_witness:
  "CHR ''_'' \<notin> set ''alice'' \<and> CHR ''_'' \<notin> set ''bob'' \<and> CHR ''_'' \<notin> set ''carol'' \<and>
   {''alice'', ''bob''} \<noteq> {''alice'', ''carol''} \<and>
   createRelationshipID ''alice'' ''bob'' \<noteq> createRelationshipID ''alice'' ''carol''"
proof -
  have h: "CHR ''_'' \<notin> set ''alice''" "CHR ''_'' \<notin> set ''bob''" "CHR ''_'' \<notin> set ''carol''"
    "{''alice'', ''bob''} \<noteq> {''alice'', ''carol''}"
    by (simp_all add: doubleton_eq_iff)
  show ?thesis
    using h createRelationshipID_injective [OF h(1) h(2) h(1) h(3) h(4)] by simp
qed

text \<open>
  C3, as the claim states it, fails at the HTTP boundary: accepting a request that was never
  made is answered with status 500, not 404. The handler sends every error of
  \<^verbatim>\<open>Update\<close> to \<^verbatim>\<open>httpx.InternalServerError\<close>; \<^verbatim>\<open>httpx.NotFound\<close> is
  called nowhere in the service.
\<close>

theorem accept_missing_record_not_404:
  "map_of (relationships \<lparr>relationships = [], bus = [], logs = []\<rparr>)
     (createRelationshipID ''nonexistent'' ''b'') = None \<and>
   status_code (fst (acceptConnection no_faults 7 (Some ''b'')
       (Some \<lparr>ActionFromUID = ''nonexistent''\<rparr>)
       \<lparr>relationships = [], bus = [], logs = []\<rparr>)) = 500 \<and>
   status_code (fst (acceptConnection no_faults 7 (Some ''b'')
       (Some \<lparr>ActionFromUID = ''nonexistent''\<rparr>)
       \<lparr>relationships = [], bus = [], logs = []\<rparr>)) \<noteq> 404"
  by (simp add: acceptConnection_update_error InternalServerError_def WriteError_def WriteJSON_def)

text \<open>
  C3, amended. For every acting user and every non-empty \<open>fromUid\<close> such that no
  document exists at the derived id, accept fails: the store's \<^verbatim>\<open>Update\<close> reports
  NotFound (when the store is reachable at all), the response is 500 with code
  \<open>internal_server_error\<close>, no document is created and nothing is published.
\<close>

theorem accept_missing_record:
  assumes "f \<noteq> []"
    and "map_of (relationships w) (createRelationshipID f uid) = None"
    and "acceptConnection e now (Some uid) (Some \<lparr>ActionFromUID = f\<rparr>) w = (resp, w')"
  shows "resp = \<lparr>status_code = 500,
                  payload = ErrorResponse ''internal_server_error'' ''Failed to accept connection''\<rparr> \<and>
         relationships w' = relationships w \<and> bus w' = bus w \<and>
         fst (doc_Update (e\<lparr>update_fails := False\<rparr>) (createRelationshipID f uid)
               [(''status'', FString StatusAccepted), (''updatedAt'', FTime now)] w) = Some ErrNotFound"
  using assms
  by (auto simp: acceptConnection_update_error InternalServerError_def WriteError_def WriteJSON_def
        log_entry_def doc_Update_def)

theorem accept_missing_record_witness:
  "acceptConnection no_faults 7 (Some ''b'') (Some \<lparr>ActionFromUID = ''nonexistent''\<rparr>)
       \<lparr>relationships = [], bus = [], logs = []\<rparr> =
     (\<lparr>status_code = 500,
        payload = ErrorResponse ''internal_server_error'' ''Failed to accept connection''\<rparr>,
      \<lparr>relationships = [], bus = [], logs = [(LError, ''Failed to accept connection'')]\<rparr>)"
proof -
  let ?w = "\<lparr>relationships = [], bus = [], logs = []\<rparr>"
  obtain resp w' where r: "acceptConnection no_faults 7 (Some ''b'')
      (Some \<lparr>ActionFromUID = ''nonexistent''\<rparr>) ?w = (resp, w')"
    by (cases "acceptConnection no_faults 7 (Some ''b'') (Some \<lparr>ActionFromUID = ''nonexistent''\<rparr>) ?w")
  have h: "''nonexistent'' \<noteq> []" "map_of (relationships ?w) (createRelationshipID ''nonexistent'' ''b'') = None"
    by simp_all
  from accept_missing_record [OF h r] have "resp = \<lparr>status_code = 500,
        payload = ErrorResponse ''internal_server_error'' ''Failed to accept connection''\<rparr>"
    by simp
  moreover have "w' = \<lparr>relationships = [], bus = [], logs = [(LError, ''Failed to accept connection'')]\<rparr>"
    using r by (simp add: acceptConnection_update_error log_entry_def)
  ultimately show ?thesis using r by simp
qed

text \<open>
  C4. For a non-empty target different from the caller, when the write succeeds, the request
  handler stores at the derived id a relationship from the caller to the target with status
  \<open>requested\<close> and \<open>createdAt = updatedAt = now\<close>, whatever was stored there before
  (the theorem assumes nothing about the collection), leaves every other document alone, and
  answers 201 with that relationship, its id included.
\<close>

theorem request_writes_requested:
  assumes "t \<noteq> []" and "t \<noteq> uid" and "\<not> set_fails e"
    and "rel = \<lparr>ID = createRelationshipID uid t, FromUID = uid, ToUID = t,
                 Status = StatusRequested, CreatedAt = now, UpdatedAt = now\<rparr>"
    and "requestConnection e now (Some uid) (Some \<lparr>TargetUID = t\<rparr>) w = (resp, w')"
  shows "resp = \<lparr>status_code = 201, payload = RelationshipBody rel\<rparr> \<and>
         map_of (relationships w') (createRelationshipID uid t) = Some (toDoc rel) \<and>
         DataTo (toDoc rel) = Some (rel\<lparr>ID := []\<rparr>) \<and>
         (\<forall>k. k \<noteq> createRelationshipID uid t \<longrightarrow>
              map_of (relationships w') k = map_of (relationships w) k)"
proof -
  have "resp = fst (requestConnection e now (Some uid) (Some \<lparr>TargetUID = t\<rparr>) w)"
       "w' = snd (requestConnection e now (Some uid) (Some \<lparr>TargetUID = t\<rparr>) w)"
    using assms(5) by simp_all
  then have "resp = \<lparr>status_code = 201, payload = RelationshipBody rel\<rparr>"
    and rels: "relationships w' = AList.update (createRelationshipID uid t) (toDoc rel) (relationships w)"
    using assms(1-4) by (simp_all add: requestConnection_response requestConnection_relationships)
  moreover have "DataTo (toDoc rel) = Some (rel\<lparr>ID := []\<rparr>)"
    by (simp add: DataTo_def toDoc_def string_field_def time_field_def assms(4))
  ultimately show ?thesis
    by (simp add: update_conv')
qed

theorem request_writes_requested_witness:
  "''carol'' \<noteq> [] \<and> ''carol'' \<noteq> ''bob'' \<and> \<not> set_fails no_faults \<and>
   map_of (relationships sample_world) ''bob_carol'' =
     Some (toDoc \<lparr>ID = [], FromUID = ''bob'', ToUID = ''carol'',
             Status = ''accepted'', CreatedAt = 2, UpdatedAt = 3\<rparr>) \<and>
   fst (requestConnection no_faults 9 (Some ''bob'') (Some \<lparr>TargetUID = ''carol''\<rparr>) sample_world) =
     \<lparr>status_code = 201, payload = RelationshipBody
        \<lparr>ID = ''bob_carol'', FromUID = ''bob'', ToUID = ''carol'',
           Status = ''requested'', CreatedAt = 9, UpdatedAt = 9\<rparr>\<rparr> \<and>
   map_of (relationships (snd (requestConnection no_faults 9 (Some ''bob'')
        (Some \<lparr>TargetUID = ''carol''\<rparr>) sample_world))) ''bob_carol'' =
     Some (toDoc \<lparr>ID = [], FromUID = ''bob'', ToUID = ''carol'',
             Status = ''requested'', CreatedAt = 9, UpdatedAt = 9\<rparr>)"
proof -
  obtain resp w' where r: "requestConnection no_faults 9 (Some ''bob'')
      (Some \<lparr>TargetUID = ''carol''\<rparr>) sample_world = (resp, w')"
    by (cases "requestConnection no_faults 9 (Some ''bob'') (Some \<lparr>TargetUID = ''carol''\<rparr>) sample_world")
  have h: "''carol'' \<noteq> []" "''carol'' \<noteq> ''bob''" "\<not> set_fails no_faults"
    by (simp_all add: no_faults_def)
  have k: "createRelationshipID ''bob'' ''carol'' = ''bob_carol''"
    by (simp add: createRelationshipID_def sort_Strings_def)
  have old: "map_of (relationships sample_world) ''bob_carol'' =
     Some (toDoc \<lparr>ID = [], FromUID = ''bob'', ToUID = ''carol'',
             Status = ''accepted'', CreatedAt = 2, UpdatedAt = 3\<rparr>)"
    by (simp add: sample_world_def StatusAccepted_def)
  from request_writes_requested [OF h refl r] h old r show ?thesis
    by (simp add: k StatusRequested_def toDoc_def)
qed

text \<open>
  C5 (INV-3). Accept and reject change no field of a stored document other than
  \<open>status\<close> and \<open>updatedAt\<close>: every document of the collection is still there
  afterwards, with \<open>fromUid\<close>, \<open>toUid\<close>, \<open>createdAt\<close> and every other field as
  before. This holds for every outcome of the handler, the successful one included.
\<close>

theorem accept_reject_frame:
  assumes "map_of (relationships w) k = Some d"
  shows "(\<exists>d'. map_of (relationships (snd (acceptConnection e now c b w))) k = Some d' \<and>
            (\<forall>f. f \<noteq> ''status'' \<and> f \<noteq> ''updatedAt'' \<longrightarrow> map_of d' f = map_of d f)) \<and>
         (\<exists>d'. map_of (relationships (snd (rejectConnection e now c b w))) k = Some d' \<and>
            (\<forall>f. f \<noteq> ''status'' \<and> f \<noteq> ''updatedAt'' \<longrightarrow> map_of d' f = map_of d f))"
proof (cases "\<exists>uid req. c = Some uid \<and> b = Some req \<and> ActionFromUID req \<noteq> [] \<and> \<not> update_fails e \<and>
        map_of (relationships w) (createRelationshipID (ActionFromUID req) uid) \<noteq> None")
  case True
  then obtain uid req d0 where r: "c = Some uid" "b = Some req" "ActionFromUID req \<noteq> []"
      "\<not> update_fails e"
      "map_of (relationships w) (createRelationshipID (ActionFromUID req) uid) = Some d0"
    by auto
  obtain f where "req = \<lparr>ActionFromUID = f\<rparr>"
    by (cases req) simp
  with r have *: "c = Some uid" "b = Some \<lparr>ActionFromUID = f\<rparr>" "f \<noteq> []"
      "\<not> update_fails e" "map_of (relationships w) (createRelationshipID f uid) = Some d0"
    by simp_all
  show ?thesis
    unfolding *(1,2) acceptConnection_relationships [OF *(3,4,5)]
      rejectConnection_relationships [OF *(3,4,5)]
    using frame_after_update [OF assms *(5)] by simp
next
  case False
  then show ?thesis
    using assms
    by (simp add: acceptConnection_relationships_other rejectConnection_relationships_other)
qed

theorem accept_reject_frame_witness:
  "map_of (relationships sample_world) ''alice_bob'' =
     Some (toDoc \<lparr>ID = [], FromUID = ''alice'', ToUID = ''bob'',
             Status = ''requested'', CreatedAt = 1, UpdatedAt = 1\<rparr>) \<and>
   (\<exists>d'. map_of (relationships (snd (acceptConnection no_faults 9 (Some ''bob'')
              (Some \<lparr>ActionFromUID = ''alice''\<rparr>) sample_world))) ''alice_bob'' = Some d' \<and>
      map_of d' ''fromUid'' = Some (FString ''alice'') \<and>
      map_of d' ''toUid'' = Some (FString ''bob'') \<and>
      map_of d' ''createdAt'' = Some (FTime 1)) \<and>
   (\<exists>d'. map_of (relationships (snd (rejectConnection no_faults 9 (Some ''bob'')
              (Some \<lparr>ActionFromUID = ''alice''\<rparr>) sample_world))) ''alice_bob'' = Some d' \<and>
      map_of d' ''fromUid'' = Some (FString ''alice'') \<and>
      map_of d' ''toUid'' = Some (FString ''bob'') \<and>
      map_of d' ''createdAt'' = Some (FTime 1))"
proof -
  let ?d = "toDoc \<lparr>ID = [], FromUID = ''alice'', ToUID = ''bob'',
             Status = ''requested'', CreatedAt = 1, UpdatedAt = 1\<rparr>"
  have h: "map_of (relationships sample_world) ''alice_bob'' = Some ?d"
    by (simp add: sample_world_def StatusRequested_def)
  have d: "map_of ?d ''fromUid'' = Some (FString ''alice'')"
          "map_of ?d ''toUid'' = Some (FString ''bob'')"
          "map_of ?d ''createdAt'' = Some (FTime 1)"
    by (simp_all add: toDoc_def)
  have f: "''fromUid'' \<noteq> ''status'' \<and> ''fromUid'' \<noteq> ''updatedAt''"
          "''toUid'' \<noteq> ''status'' \<and> ''toUid'' \<noteq> ''updatedAt''"
          "''createdAt'' \<noteq> ''status'' \<and> ''createdAt'' \<noteq> ''updatedAt''"
    by simp_all
  note fr = accept_reject_frame [OF h, of no_faults 9 "Some ''bob''" "Some \<lparr>ActionFromUID = ''alice''\<rparr>"]
  from fr [THEN conjunct1] obtain d1 where
    a: "map_of (relationships (snd (acceptConnection no_faults 9 (Some ''bob'')
              (Some \<lparr>ActionFromUID = ''alice''\<rparr>) sample_world))) ''alice_bob'' = Some d1"
       "\<forall>f. f \<noteq> ''status'' \<and> f \<noteq> ''updatedAt'' \<longrightarrow> map_of d1 f = map_of ?d f"
    by (elim exE conjE)
  from fr [THEN conjunct2] obtain d2 where
    r: "map_of (relationships (snd (rejectConnection no_faults 9 (Some ''bob'')
              (Some \<lparr>ActionFromUID = ''alice''\<rparr>) sample_world))) ''alice_bob'' = Some d2"
       "\<forall>f. f \<noteq> ''status'' \<and> f \<noteq> ''updatedAt'' \<longrightarrow> map_of d2 f = map_of ?d f"
    by (elim exE conjE)
  have "map_of d1 ''fromUid'' = Some (FString ''alice'')"
       "map_of d1 ''toUid'' = Some (FString ''bob'')"
       "map_of d1 ''createdAt'' = Some (FTime 1)"
    using a(2) [rule_format, OF f(1)] a(2) [rule_format, OF f(2)] a(2) [rule_format, OF f(3)]
    by (simp_all only: d)
  moreover have "map_of d2 ''fromUid'' = Some (FString ''alice'')"
       "map_of d2 ''toUid'' = Some (FString ''bob'')"
       "map_of d2 ''createdAt'' = Some (FTime 1)"
    using r(2) [rule_format, OF f(1)] r(2) [rule_format, OF f(2)] r(2) [rule_format, OF f(3)]
    by (simp_all only: d)
  ultimately show ?thesis using h a(1) r(1) by (intro conjI exI) assumption+
qed

text \<open>
  C6. An accept answered with 200 has handed exactly one message to the bus, with routing key
  \<open>connection.accepted\<close> and payload \<open>fromUid\<close> (from the body), \<open>toUid\<close> (the acting
  user) and \<open>createdAt = now\<close>, the time also written to \<open>updatedAt\<close>. A reject answered
  with 200 has handed nothing to the bus, has set the status of the document to
  \<open>rejected\<close>, and returns the document as read back after the update.
\<close>

theorem accept_publishes_reject_does_not:
  "(status_code (fst (acceptConnection e now (Some uid) (Some \<lparr>ActionFromUID = f\<rparr>) w)) = 200 \<longrightarrow>
      bus (snd (acceptConnection e now (Some uid) (Some \<lparr>ActionFromUID = f\<rparr>) w)) =
        bus w @ [\<lparr>routingKey = ''connection.accepted'',
                  message = \<lparr>EventFromUID = f, EventToUID = uid, EventCreatedAt = now\<rparr>,
                  delivered = \<not> publish_fails e\<rparr>] \<and>
      (\<exists>d'. map_of (relationships (snd (acceptConnection e now (Some uid) (Some \<lparr>ActionFromUID = f\<rparr>) w)))
               (createRelationshipID f uid) = Some d' \<and>
             map_of d' ''updatedAt'' = Some (FTime now))) \<and>
   (status_code (fst (rejectConnection e now (Some uid) (Some \<lparr>ActionFromUID = f\<rparr>) w)) = 200 \<longrightarrow>
      bus (snd (rejectConnection e now (Some uid) (Some \<lparr>ActionFromUID = f\<rparr>) w)) = bus w \<and>
      (\<exists>d' r. map_of (relationships (snd (rejectConnection e now (Some uid) (Some \<lparr>ActionFromUID = f\<rparr>) w)))
               (createRelationshipID f uid) = Some d' \<and>
             map_of d' ''status'' = Some (FString StatusRejected) \<and>
             DataTo d' = Some r \<and> Status r = StatusRejected \<and>
             payload (fst (rejectConnection e now (Some uid) (Some \<lparr>ActionFromUID = f\<rparr>) w)) =
               RelationshipBody (r\<lparr>ID := createRelationshipID f uid\<rparr>)))"
proof (intro conjI impI)
  assume ok: "status_code (fst (acceptConnection e now (Some uid) (Some \<lparr>ActionFromUID = f\<rparr>) w)) = 200"
  from acceptConnection_200 [OF ok] obtain d where
    h: "f \<noteq> []" "\<not> update_fails e" "map_of (relationships w) (createRelationshipID f uid) = Some d"
    by blast
  show "bus (snd (acceptConnection e now (Some uid) (Some \<lparr>ActionFromUID = f\<rparr>) w)) =
        bus w @ [\<lparr>routingKey = ''connection.accepted'',
                  message = \<lparr>EventFromUID = f, EventToUID = uid, EventCreatedAt = now\<rparr>,
                  delivered = \<not> publish_fails e\<rparr>]"
    by (rule acceptConnection_bus [OF h])
  show "\<exists>d'. map_of (relationships (snd (acceptConnection e now (Some uid) (Some \<lparr>ActionFromUID = f\<rparr>) w)))
               (createRelationshipID f uid) = Some d' \<and>
             map_of d' ''updatedAt'' = Some (FTime now)"
    by (simp add: acceptConnection_relationships [OF h] update_conv' map_of_apply_updates2)
next
  assume ok: "status_code (fst (rejectConnection e now (Some uid) (Some \<lparr>ActionFromUID = f\<rparr>) w)) = 200"
  show "bus (snd (rejectConnection e now (Some uid) (Some \<lparr>ActionFromUID = f\<rparr>) w)) = bus w"
    by (rule rejectConnection_bus)
  from rejectConnection_200 [OF ok] obtain d where
    h: "f \<noteq> []" "\<not> update_fails e" "map_of (relationships w) (createRelationshipID f uid) = Some d"
    and g: "\<not> get_fails e"
    by blast
  let ?d' = "apply_updates [(''status'', FString StatusRejected), (''updatedAt'', FTime now)] d"
  have st: "map_of ?d' ''status'' = Some (FString StatusRejected)"
    by (simp add: map_of_apply_updates2)
  from ok g obtain r where r: "DataTo ?d' = Some r"
    and p: "fst (rejectConnection e now (Some uid) (Some \<lparr>ActionFromUID = f\<rparr>) w) =
            Success (RelationshipBody (r\<lparr>ID := createRelationshipID f uid\<rparr>))"
    by (cases "DataTo ?d'") (simp_all add: rejectConnection_response [OF h])
  show "\<exists>d' r. map_of (relationships (snd (rejectConnection e now (Some uid) (Some \<lparr>ActionFromUID = f\<rparr>) w)))
               (createRelationshipID f uid) = Some d' \<and>
             map_of d' ''status'' = Some (FString StatusRejected) \<and>
             DataTo d' = Some r \<and> Status r = StatusRejected \<and>
             payload (fst (rejectConnection e now (Some uid) (Some \<lparr>ActionFromUID = f\<rparr>) w)) =
               RelationshipBody (r\<lparr>ID := createRelationshipID f uid\<rparr>)"
    using st r p DataTo_status [OF r st]
    by (simp add: rejectConnection_relationships [OF h] update_conv')
qed

theorem accept_publishes_reject_does_not_witness:
  "status_code (fst (acceptConnection no_faults 9 (Some ''bob'')
       (Some \<lparr>ActionFromUID = ''alice''\<rparr>) sample_world)) = 200 \<and>
   bus (snd (acceptConnection no_faults 9 (Some ''bob'')
       (Some \<lparr>ActionFromUID = ''alice''\<rparr>) sample_world)) =
     [\<lparr>routingKey = ''connection.accepted'',
        message = \<lparr>EventFromUID = ''alice'', EventToUID = ''bob'', EventCreatedAt = 9\<rparr>,
        delivered = True\<rparr>] \<and>
   status_code (fst (rejectConnection no_faults 9 (Some ''bob'')
       (Some \<lparr>ActionFromUID = ''alice''\<rparr>) sample_world)) = 200 \<and>
   bus (snd (rejectConnection no_faults 9 (Some ''bob'')
       (Some \<lparr>ActionFromUID = ''alice''\<rparr>) sample_world)) = []"
proof -
  have k: "createRelationshipID ''alice'' ''bob'' = ''alice_bob''"
    by (simp add: createRelationshipID_def sort_Strings_def)
  have h: "''alice'' \<noteq> []" "\<not> update_fails no_faults"
    "map_of (relationships sample_world) (createRelationshipID ''alice'' ''bob'') =
       Some (toDoc \<lparr>ID = [], FromUID = ''alice'', ToUID = ''bob'',
             Status = StatusRequested, CreatedAt = 1, UpdatedAt = 1\<rparr>)"
    by (simp_all add: k sample_world_def no_faults_def)
  have g: "\<not> get_fails no_faults" by (simp add: no_faults_def)
  have a: "status_code (fst (acceptConnection no_faults 9 (Some ''bob'')
       (Some \<lparr>ActionFromUID = ''alice''\<rparr>) sample_world)) = 200"
    using g by (simp add: acceptConnection_response [OF h] DataTo_def apply_updates_def toDoc_def
        string_field_def time_field_def)
  have r: "status_code (fst (rejectConnection no_faults 9 (Some ''bob'')
       (Some \<lparr>ActionFromUID = ''alice''\<rparr>) sample_world)) = 200"
    using g by (simp add: rejectConnection_response [OF h] DataTo_def apply_updates_def toDoc_def
        string_field_def time_field_def)
  have b: "bus sample_world = []" "publish_fails no_faults = False"
    by (simp_all add: sample_world_def no_faults_def)
  from accept_publishes_reject_does_not [of no_faults 9 "''bob''" "''alice''" sample_world] a r b
  show ?thesis by simp
qed

text \<open>
  C7. When the publish fails after a successful write, request still answers 201 with the
  relationship, accept answers what it answers when the publish succeeds, the collection is
  what it is when the publish succeeds (the written document stays), and the failure is in
  the log at level error.
\<close>

theorem publish_failure_does_not_fail_operation:
  assumes "publish_fails e"
  shows "(t \<noteq> [] \<and> t \<noteq> uid \<and> \<not> set_fails e \<longrightarrow>
            fst (requestConnection e now (Some uid) (Some \<lparr>TargetUID = t\<rparr>) w) =
              \<lparr>status_code = 201, payload = RelationshipBody
                 \<lparr>ID = createRelationshipID uid t, FromUID = uid, ToUID = t,
                    Status = StatusRequested, CreatedAt = now, UpdatedAt = now\<rparr>\<rparr> \<and>
            fst (requestConnection e now (Some uid) (Some \<lparr>TargetUID = t\<rparr>) w) =
              fst (requestConnection (e\<lparr>publish_fails := False\<rparr>) now (Some uid) (Some \<lparr>TargetUID = t\<rparr>) w) \<and>
            relationships (snd (requestConnection e now (Some uid) (Some \<lparr>TargetUID = t\<rparr>) w)) =
              relationships (snd (requestConnection (e\<lparr>publish_fails := False\<rparr>) now (Some uid)
                 (Some \<lparr>TargetUID = t\<rparr>) w)) \<and>
            map_of (relationships (snd (requestConnection e now (Some uid) (Some \<lparr>TargetUID = t\<rparr>) w)))
                (createRelationshipID uid t) =
              Some (toDoc \<lparr>ID = createRelationshipID uid t, FromUID = uid, ToUID = t,
                    Status = StatusRequested, CreatedAt = now, UpdatedAt = now\<rparr>) \<and>
            (LError, ''Failed to publish connection.requested event'') \<in>
              set (logs (snd (requestConnection e now (Some uid) (Some \<lparr>TargetUID = t\<rparr>) w)))) \<and>
         (f \<noteq> [] \<and> \<not> update_fails e \<and> map_of (relationships w) (createRelationshipID f uid) = Some d \<longrightarrow>
            fst (acceptConnection e now (Some uid) (Some \<lparr>ActionFromUID = f\<rparr>) w) =
              fst (acceptConnection (e\<lparr>publish_fails := False\<rparr>) now (Some uid) (Some \<lparr>ActionFromUID = f\<rparr>) w) \<and>
            relationships (snd (acceptConnection e now (Some uid) (Some \<lparr>ActionFromUID = f\<rparr>) w)) =
              relationships (snd (acceptConnection (e\<lparr>publish_fails := False\<rparr>) now (Some uid)
                 (Some \<lparr>ActionFromUID = f\<rparr>) w)) \<and>
            map_of (relationships (snd (acceptConnection e now (Some uid) (Some \<lparr>ActionFromUID = f\<rparr>) w)))
                (createRelationshipID f uid) =
              Some (apply_updates [(''status'', FString StatusAccepted), (''updatedAt'', FTime now)] d) \<and>
            (LError, ''Failed to publish connection.accepted event'') \<in>
              set (logs (snd (acceptConnection e now (Some uid) (Some \<lparr>ActionFromUID = f\<rparr>) w))))"
proof (intro conjI impI)
  assume a: "t \<noteq> [] \<and> t \<noteq> uid \<and> \<not> set_fails e"
  then have h: "t \<noteq> []" "t \<noteq> uid" "\<not> set_fails e" by simp_all
  have h': "\<not> set_fails (e\<lparr>publish_fails := False\<rparr>)" using h by simp
  show "fst (requestConnection e now (Some uid) (Some \<lparr>TargetUID = t\<rparr>) w) =
              \<lparr>status_code = 201, payload = RelationshipBody
                 \<lparr>ID = createRelationshipID uid t, FromUID = uid, ToUID = t,
                    Status = StatusRequested, CreatedAt = now, UpdatedAt = now\<rparr>\<rparr>"
    by (rule requestConnection_response [OF h])
  show "fst (requestConnection e now (Some uid) (Some \<lparr>TargetUID = t\<rparr>) w) =
        fst (requestConnection (e\<lparr>publish_fails := False\<rparr>) now (Some uid) (Some \<lparr>TargetUID = t\<rparr>) w)"
    by (simp only: requestConnection_response [OF h] requestConnection_response [OF h(1,2) h'])
  show "relationships (snd (requestConnection e now (Some uid) (Some \<lparr>TargetUID = t\<rparr>) w)) =
        relationships (snd (requestConnection (e\<lparr>publish_fails := False\<rparr>) now (Some uid)
                 (Some \<lparr>TargetUID = t\<rparr>) w))"
    by (simp only: requestConnection_relationships [OF h] requestConnection_relationships [OF h(1,2) h'])
  show "map_of (relationships (snd (requestConnection e now (Some uid) (Some \<lparr>TargetUID = t\<rparr>) w)))
                (createRelationshipID uid t) =
              Some (toDoc \<lparr>ID = createRelationshipID uid t, FromUID = uid, ToUID = t,
                    Status = StatusRequested, CreatedAt = now, UpdatedAt = now\<rparr>)"
    by (simp add: requestConnection_relationships [OF h] update_conv')
  show "(LError, ''Failed to publish connection.requested event'') \<in>
              set (logs (snd (requestConnection e now (Some uid) (Some \<lparr>TargetUID = t\<rparr>) w)))"
    by (simp add: requestConnection_logs_publish_failure [OF h assms])
next
  assume a: "f \<noteq> [] \<and> \<not> update_fails e \<and> map_of (relationships w) (createRelationshipID f uid) = Some d"
  then have h: "f \<noteq> []" "\<not> update_fails e" "map_of (relationships w) (createRelationshipID f uid) = Some d"
    by simp_all
  have h': "\<not> update_fails (e\<lparr>publish_fails := False\<rparr>)" using h by simp
  show "fst (acceptConnection e now (Some uid) (Some \<lparr>ActionFromUID = f\<rparr>) w) =
        fst (acceptConnection (e\<lparr>publish_fails := False\<rparr>) now (Some uid) (Some \<lparr>ActionFromUID = f\<rparr>) w)"
    by (simp add: acceptConnection_response [OF h] acceptConnection_response [OF h(1) h' h(3)])
  show "relationships (snd (acceptConnection e now (Some uid) (Some \<lparr>ActionFromUID = f\<rparr>) w)) =
        relationships (snd (acceptConnection (e\<lparr>publish_fails := False\<rparr>) now (Some uid)
                 (Some \<lparr>ActionFromUID = f\<rparr>) w))"
    by (simp only: acceptConnection_relationships [OF h] acceptConnection_relationships [OF h(1) h' h(3)])
  show "map_of (relationships (snd (acceptConnection e now (Some uid) (Some \<lparr>ActionFromUID = f\<rparr>) w)))
                (createRelationshipID f uid) =
              Some (apply_updates [(''status'', FString StatusAccepted), (''updatedAt'', FTime now)] d)"
    by (simp add: acceptConnection_relationships [OF h] update_conv')
  from acceptConnection_logs_publish_failure [OF h assms, of now]
  show "(LError, ''Failed to publish connection.accepted event'') \<in>
              set (logs (snd (acceptConnection e now (Some uid) (Some \<lparr>ActionFromUID = f\<rparr>) w)))"
    by auto
qed

theorem publish_failure_does_not_fail_operation_witness:
  "publish_fails (no_faults\<lparr>publish_fails := True\<rparr>) \<and>
   fst (requestConnection (no_faults\<lparr>publish_fails := True\<rparr>) 9 (Some ''bob'')
         (Some \<lparr>TargetUID = ''dave''\<rparr>) sample_world) =
     \<lparr>status_code = 201, payload = RelationshipBody
        \<lparr>ID = ''bob_dave'', FromUID = ''bob'', ToUID = ''dave'',
           Status = ''requested'', CreatedAt = 9, UpdatedAt = 9\<rparr>\<rparr> \<and>
   (LError, ''Failed to publish connection.requested event'') \<in>
     set (logs (snd (requestConnection (no_faults\<lparr>publish_fails := True\<rparr>) 9 (Some ''bob'')
         (Some \<lparr>TargetUID = ''dave''\<rparr>) sample_world))) \<and>
   fst (acceptConnection (no_faults\<lparr>publish_fails := True\<rparr>) 9 (Some ''bob'')
         (Some \<lparr>ActionFromUID = ''alice''\<rparr>) sample_world) =
     fst (acceptConnection no_faults 9 (Some ''bob'') (Some \<lparr>ActionFromUID = ''alice''\<rparr>) sample_world) \<and>
   (LError, ''Failed to publish connection.accepted event'') \<in>
     set (logs (snd (acceptConnection (no_faults\<lparr>publish_fails := True\<rparr>) 9 (Some ''bob'')
         (Some \<lparr>ActionFromUID = ''alice''\<rparr>) sample_world)))"
proof -
  let ?e = "no_faults\<lparr>publish_fails := True\<rparr>"
  have k: "createRelationshipID ''alice'' ''bob'' = ''alice_bob''"
          "createRelationshipID ''bob'' ''dave'' = ''bob_dave''"
    by (simp_all add: createRelationshipID_def sort_Strings_def)
  have p: "publish_fails ?e" by simp
  have h1: "''dave'' \<noteq> [] \<and> ''dave'' \<noteq> ''bob'' \<and> \<not> set_fails ?e"
    by (simp add: no_faults_def)
  have h2: "''alice'' \<noteq> [] \<and> \<not> update_fails ?e \<and>
    map_of (relationships sample_world) (createRelationshipID ''alice'' ''bob'') =
       Some (toDoc \<lparr>ID = [], FromUID = ''alice'', ToUID = ''bob'',
             Status = StatusRequested, CreatedAt = 1, UpdatedAt = 1\<rparr>)"
    by (simp add: k sample_world_def no_faults_def)
  have e: "?e\<lparr>publish_fails := False\<rparr> = no_faults"
    by (simp add: no_faults_def)
  from publish_failure_does_not_fail_operation [OF p, of "''dave''" "''bob''" 9 sample_world "''alice''"
      "toDoc \<lparr>ID = [], FromUID = ''alice'', ToUID = ''bob'',
             Status = StatusRequested, CreatedAt = 1, UpdatedAt = 1\<rparr>"] h1 h2 p
  show ?thesis by (simp add: k e StatusRequested_def)
qed

text \<open>
  C8. A request whose target is empty or is the caller is answered with 400 and code
  \<open>bad_request\<close>; the world (collection, bus and log) is unchanged.
\<close>

theorem request_invalid_target:
  assumes "t = [] \<or> t = uid"
  shows "status_code (fst (requestConnection e now (Some uid) (Some \<lparr>TargetUID = t\<rparr>) w)) = 400 \<and>
         (\<exists>m. payload (fst (requestConnection e now (Some uid) (Some \<lparr>TargetUID = t\<rparr>) w)) =
                ErrorResponse ''bad_request'' m) \<and>
         snd (requestConnection e now (Some uid) (Some \<lparr>TargetUID = t\<rparr>) w) = w"
  using assms
  by (auto simp: requestConnection_def BadRequest_def WriteError_def WriteJSON_def)

theorem request_invalid_target_witness:
  "(''x'' = [] \<or> ''x'' = ''x'') \<and>
   requestConnection no_faults 9 (Some ''x'') (Some \<lparr>TargetUID = ''x''\<rparr>) sample_world =
     (\<lparr>status_code = 400,
        payload = ErrorResponse ''bad_request'' ''Cannot connect with yourself''\<rparr>, sample_world)"
proof -
  have h: "''x'' = [] \<or> ''x'' = ''x''" by simp
  have m: "payload (fst (requestConnection no_faults 9 (Some ''x'') (Some \<lparr>TargetUID = ''x''\<rparr>)
      sample_world)) = ErrorResponse ''bad_request'' ''Cannot connect with yourself''"
    by (simp add: requestConnection_def BadRequest_def WriteError_def WriteJSON_def)
  from request_invalid_target [OF h, of no_faults 9 sample_world] h m show ?thesis
    by (cases "requestConnection no_faults 9 (Some ''x'') (Some \<lparr>TargetUID = ''x''\<rparr>) sample_world")
       (auto intro: response.equality)
qed

text \<open>
  C9. Listing with no status given is listing with status \<open>accepted\<close>. When neither
  query fails, the answer is 200 with the relationships whose \<open>fromUid\<close> is the caller
  followed by those whose \<open>toUid\<close> is the caller, both with the given status, and their
  number; the list is never the nil slice, and it is empty when nothing matches.
\<close>

theorem getConnections_union:
  assumes "iter1_fails e = None" and "iter2_fails e = None"
    and "s = (if status = [] then StatusAccepted else status)"
    and "fst (getConnections e (Some uid) status w) = resp"
  shows "getConnections e (Some uid) [] w = getConnections e (Some uid) StatusAccepted w \<and>
         (\<exists>rs. resp = \<lparr>status_code = 200, payload = ConnectionsBody (Some rs) (length rs)\<rparr> \<and>
            rs = parse_all (matching ''fromUid'' uid s (relationships w)) @
                 parse_all (matching ''toUid'' uid s (relationships w)) \<and>
            set rs = {r\<lparr>ID := k\<rparr> | k d r. (k, d) \<in> set (relationships w) \<and> DataTo d = Some r \<and>
                        field_is d ''status'' s \<and>
                        (field_is d ''fromUid'' uid \<or> field_is d ''toUid'' uid)} \<and>
            ((\<forall>(k, d) \<in> set (relationships w).
                 \<not> (field_is d ''status'' s \<and> (field_is d ''fromUid'' uid \<or> field_is d ''toUid'' uid)))
               \<longrightarrow> rs = []))"
proof -
  have dflt: "getConnections e (Some uid) [] w = getConnections e (Some uid) StatusAccepted w"
    by (simp add: getConnections_def StatusAccepted_def)
  have s: "s \<noteq> []" using assms(3) by (simp add: StatusAccepted_def)
  have same: "getConnections e (Some uid) status w = getConnections e (Some uid) s w"
    using assms(3) dflt by (cases "status = []") simp_all
  let ?rs = "parse_all (matching ''fromUid'' uid s (relationships w)) @
             parse_all (matching ''toUid'' uid s (relationships w))"
  have resp: "resp = \<lparr>status_code = 200, payload = ConnectionsBody (Some ?rs) (length ?rs)\<rparr>"
    using assms(4) getConnections_ok [OF assms(1,2) s, of uid w]
    by (simp add: same Success_def WriteJSON_def)
  have set_rs: "set ?rs = {r\<lparr>ID := k\<rparr> | k d r. (k, d) \<in> set (relationships w) \<and> DataTo d = Some r \<and>
                        field_is d ''status'' s \<and>
                        (field_is d ''fromUid'' uid \<or> field_is d ''toUid'' uid)}"
    by (auto simp: set_parse_all matching_def)
  have none: "(\<forall>(k, d) \<in> set (relationships w).
                 \<not> (field_is d ''status'' s \<and> (field_is d ''fromUid'' uid \<or> field_is d ''toUid'' uid)))
               \<longrightarrow> ?rs = []"
  proof
    assume "\<forall>(k, d) \<in> set (relationships w).
                 \<not> (field_is d ''status'' s \<and> (field_is d ''fromUid'' uid \<or> field_is d ''toUid'' uid))"
    then have "set ?rs = {}" unfolding set_rs by auto
    then show "?rs = []" by (simp only: set_empty)
  qed
  from dflt resp set_rs none show ?thesis by blast
qed

theorem getConnections_union_witness:
  "iter1_fails no_faults = None \<and> iter2_fails no_faults = None \<and>
   fst (getConnections no_faults (Some ''carol'') [] sample_world) =
     \<lparr>status_code = 200, payload = ConnectionsBody
        (Some [\<lparr>ID = ''alice_carol'', FromUID = ''carol'', ToUID = ''alice'',
                 Status = ''accepted'', CreatedAt = 4, UpdatedAt = 5\<rparr>,
               \<lparr>ID = ''bob_carol'', FromUID = ''bob'', ToUID = ''carol'',
                 Status = ''accepted'', CreatedAt = 2, UpdatedAt = 3\<rparr>]) 2\<rparr> \<and>
   fst (getConnections no_faults (Some ''carol'') ''rejected'' sample_world) =
     \<lparr>status_code = 200, payload = ConnectionsBody (Some []) 0\<rparr>"
proof -
  have h: "iter1_fails no_faults = None" "iter2_fails no_faults = None"
    by (simp_all add: no_faults_def)
  have s1: "''accepted'' = (if [] = [] then StatusAccepted else [])"
    by (simp add: StatusAccepted_def)
  have s2: "''rejected'' = (if ''rejected'' = [] then StatusAccepted else ''rejected'')"
    by simp
  have n: "\<forall>(k, d) \<in> set (relationships sample_world).
       \<not> (field_is d ''status'' ''rejected'' \<and>
          (field_is d ''fromUid'' ''carol'' \<or> field_is d ''toUid'' ''carol''))"
    by (simp add: sample_world_def field_is_def toDoc_def StatusAccepted_def StatusRequested_def)
  have p: "parse_all (matching ''fromUid'' ''carol'' ''accepted'' (relationships sample_world)) @
           parse_all (matching ''toUid'' ''carol'' ''accepted'' (relationships sample_world)) =
           [\<lparr>ID = ''alice_carol'', FromUID = ''carol'', ToUID = ''alice'',
                 Status = ''accepted'', CreatedAt = 4, UpdatedAt = 5\<rparr>,
               \<lparr>ID = ''bob_carol'', FromUID = ''bob'', ToUID = ''carol'',
                 Status = ''accepted'', CreatedAt = 2, UpdatedAt = 3\<rparr>]"
    by (simp add: sample_world_def parse_all_def matching_def field_is_def toDoc_def DataTo_def
          string_field_def time_field_def StatusAccepted_def StatusRequested_def)
  from getConnections_union [OF h s1 refl, of "''carol''" sample_world]
       getConnections_union [OF h s2 refl, of "''carol''" sample_world] h n p
  show ?thesis by auto
qed

text \<open>
  C10. Accept and reject update (and accept publishes) before they read the document back.
  When the update succeeds and the read fails, the answer is 500 although the document
  already carries the new status and time, and although accept has already published.
\<close>

theorem accept_reject_not_atomic:
  assumes "f \<noteq> []" and "\<not> update_fails e" and "get_fails e"
    and "map_of (relationships w) (createRelationshipID f uid) = Some d"
  shows "status_code (fst (acceptConnection e now (Some uid) (Some \<lparr>ActionFromUID = f\<rparr>) w)) = 500 \<and>
         (\<exists>d'. map_of (relationships (snd (acceptConnection e now (Some uid) (Some \<lparr>ActionFromUID = f\<rparr>) w)))
                 (createRelationshipID f uid) = Some d' \<and>
               map_of d' ''status'' = Some (FString StatusAccepted) \<and>
               map_of d' ''updatedAt'' = Some (FTime now)) \<and>
         bus (snd (acceptConnection e now (Some uid) (Some \<lparr>ActionFromUID = f\<rparr>) w)) =
           bus w @ [\<lparr>routingKey = ''connection.accepted'',
                  message = \<lparr>EventFromUID = f, EventToUID = uid, EventCreatedAt = now\<rparr>,
                  delivered = \<not> publish_fails e\<rparr>] \<and>
         status_code (fst (rejectConnection e now (Some uid) (Some \<lparr>ActionFromUID = f\<rparr>) w)) = 500 \<and>
         (\<exists>d'. map_of (relationships (snd (rejectConnection e now (Some uid) (Some \<lparr>ActionFromUID = f\<rparr>) w)))
                 (createRelationshipID f uid) = Some d' \<and>
               map_of d' ''status'' = Some (FString StatusRejected) \<and>
               map_of d' ''updatedAt'' = Some (FTime now))"
  using assms
  by (simp add: acceptConnection_response rejectConnection_response acceptConnection_relationships
        rejectConnection_relationships acceptConnection_bus update_conv' map_of_apply_updates2)

theorem accept_reject_not_atomic_witness:
  "get_fails (no_faults\<lparr>get_fails := True\<rparr>) \<and>
   map_of (relationships sample_world) ''alice_bob'' =
     Some (toDoc \<lparr>ID = [], FromUID = ''alice'', ToUID = ''bob'',
             Status = ''requested'', CreatedAt = 1, UpdatedAt = 1\<rparr>) \<and>
   status_code (fst (acceptConnection (no_faults\<lparr>get_fails := True\<rparr>) 9 (Some ''bob'')
       (Some \<lparr>ActionFromUID = ''alice''\<rparr>) sample_world)) = 500 \<and>
   (\<exists>d'. map_of (relationships (snd (acceptConnection (no_faults\<lparr>get_fails := True\<rparr>) 9 (Some ''bob'')
       (Some \<lparr>ActionFromUID = ''alice''\<rparr>) sample_world))) ''alice_bob'' = Some d' \<and>
      map_of d' ''status'' = Some (FString ''accepted'')) \<and>
   bus (snd (acceptConnection (no_faults\<lparr>get_fails := True\<rparr>) 9 (Some ''bob'')
       (Some \<lparr>ActionFromUID = ''alice''\<rparr>) sample_world)) =
     [\<lparr>routingKey = ''connection.accepted'',
        message = \<lparr>EventFromUID = ''alice'', EventToUID = ''bob'', EventCreatedAt = 9\<rparr>,
        delivered = True\<rparr>] \<and>
   status_code (fst (rejectConnection (no_faults\<lparr>get_fails := True\<rparr>) 9 (Some ''bob'')
       (Some \<lparr>ActionFromUID = ''alice''\<rparr>) sample_world)) = 500 \<and>
   (\<exists>d'. map_of (relationships (snd (rejectConnection (no_faults\<lparr>get_fails := True\<rparr>) 9 (Some ''bob'')
       (Some \<lparr>ActionFromUID = ''alice''\<rparr>) sample_world))) ''alice_bob'' = Some d' \<and>
      map_of d' ''status'' = Some (FString ''rejected''))"
proof -
  let ?e = "no_faults\<lparr>get_fails := True\<rparr>"
  have k: "createRelationshipID ''alice'' ''bob'' = ''alice_bob''"
    by (simp add: createRelationshipID_def sort_Strings_def)
  have h: "''alice'' \<noteq> []" "\<not> update_fails ?e" "get_fails ?e"
    "map_of (relationships sample_world) (createRelationshipID ''alice'' ''bob'') =
       Some (toDoc \<lparr>ID = [], FromUID = ''alice'', ToUID = ''bob'',
             Status = StatusRequested, CreatedAt = 1, UpdatedAt = 1\<rparr>)"
    by (simp_all add: k sample_world_def no_faults_def)
  have b: "bus sample_world = []" "publish_fails ?e = False"
    by (simp_all add: sample_world_def no_faults_def)
  from accept_reject_not_atomic [OF h, of 9] h b
  show ?thesis
    by (simp add: k StatusRequested_def StatusAccepted_def StatusRejected_def) blast
qed

end
